theory Spec2Isabelle
  imports Complex_Main
begin

section \<open>Single-precision values\<close>

text \<open>
  The three value types of the library hold C++ \<open>float\<close> fields. A \<open>float\<close> is
  modelled as a real number or one of the IEEE-754 special values: both infinities and
  NaN. Arithmetic on finite values is exact (rounding, overflow and underflow are left
  out, and the two zeros are one value, read as \<open>+0\<close> where it divides); the special
  values follow IEEE-754: an invalid operation gives NaN, NaN propagates, a non-zero
  finite value divided by zero is an infinity, and every comparison with NaN is false.
\<close>

datatype float = Fin real | PInf | NInf | NaN

instantiation float :: "{plus, minus, uminus, times, inverse}"
begin

fun uminus_float :: "float \<Rightarrow> float" where
  "uminus_float (Fin a) = Fin (- a)"
| "uminus_float PInf = NInf"
| "uminus_float NInf = PInf"
| "uminus_float NaN = NaN"

fun plus_float :: "float \<Rightarrow> float \<Rightarrow> float" where
  "plus_float NaN _ = NaN"
| "plus_float _ NaN = NaN"
| "plus_float (Fin a) (Fin b) = Fin (a + b)"
| "plus_float PInf NInf = NaN"
| "plus_float NInf PInf = NaN"
| "plus_float PInf _ = PInf"
| "plus_float _ PInf = PInf"
| "plus_float NInf _ = NInf"
| "plus_float _ NInf = NInf"

definition minus_float :: "float \<Rightarrow> float \<Rightarrow> float" where
  "minus_float a b = a + (- b)"

fun times_float :: "float \<Rightarrow> float \<Rightarrow> float" where
  "times_float NaN _ = NaN"
| "times_float _ NaN = NaN"
| "times_float (Fin a) (Fin b) = Fin (a * b)"
| "times_float (Fin a) PInf = (if a = 0 then NaN else if 0 < a then PInf else NInf)"
| "times_float (Fin a) NInf = (if a = 0 then NaN else if 0 < a then NInf else PInf)"
| "times_float PInf (Fin b) = (if b = 0 then NaN else if 0 < b then PInf else NInf)"
| "times_float NInf (Fin b) = (if b = 0 then NaN else if 0 < b then NInf else PInf)"
| "times_float PInf PInf = PInf"
| "times_float PInf NInf = NInf"
| "times_float NInf PInf = NInf"
| "times_float NInf NInf = PInf"

fun divide_float :: "float \<Rightarrow> float \<Rightarrow> float" where
  "divide_float NaN _ = NaN"
| "divide_float _ NaN = NaN"
| "divide_float (Fin a) (Fin b) =
     (if b = 0 then (if a = 0 then NaN else if 0 < a then PInf else NInf)
      else Fin (a / b))"
| "divide_float (Fin a) _ = Fin 0"
| "divide_float PInf (Fin b) = (if 0 \<le> b then PInf else NInf)"
| "divide_float NInf (Fin b) = (if 0 \<le> b then NInf else PInf)"
| "divide_float _ _ = NaN"

definition inverse_float :: "float \<Rightarrow> float" where
  "inverse_float a = divide (Fin 1) a"

instance ..

end

text \<open>\<open>sqrtf\<close>: NaN below zero.\<close>

fun sqrtf :: "float \<Rightarrow> float" where
  "sqrtf (Fin a) = (if a < 0 then NaN else Fin (sqrt a))"
| "sqrtf PInf = PInf"
| "sqrtf NInf = NaN"
| "sqrtf NaN = NaN"

text \<open>The comparisons \<open>==\<close> and \<open>>\<close> of C++ on \<open>float\<close>: false when an operand is NaN.\<close>

fun feq :: "float \<Rightarrow> float \<Rightarrow> bool" where
  "feq NaN _ = False"
| "feq _ NaN = False"
| "feq a b = (a = b)"

fun fgt :: "float \<Rightarrow> float \<Rightarrow> bool" where
  "fgt NaN _ = False"
| "fgt _ NaN = False"
| "fgt (Fin a) (Fin b) = (b < a)"
| "fgt PInf PInf = False"
| "fgt PInf _ = True"
| "fgt NInf _ = False"
| "fgt (Fin a) NInf = True"
| "fgt (Fin a) PInf = False"

fun isfinite :: "float \<Rightarrow> bool" where
  "isfinite (Fin a) = True"
| "isfinite _ = False"

text \<open>\<open>cst::sqr\<close> of def.h.\<close>

definition sqr :: "float \<Rightarrow> float" where
  "sqr f = f * f"

section \<open>Vector (vector.h, vector.cpp)\<close>

record Vector =
  x :: float
  y :: float
  z :: float

definition Vector_normSqr :: "Vector \<Rightarrow> float" where
  "Vector_normSqr v = sqr (Vector.x v) + sqr (Vector.y v) + sqr (Vector.z v)"

definition Vector_norm :: "Vector \<Rightarrow> float" where
  "Vector_norm v = sqrtf (Vector_normSqr v)"

text \<open>\<open>Vector::operator/(float n)\<close>.\<close>

definition Vector_div :: "Vector \<Rightarrow> float \<Rightarrow> Vector" where
  "Vector_div v n = \<lparr>Vector.x = Vector.x v / n, y = Vector.y v / n, z = Vector.z v / n\<rparr>"

definition Vector_normalised :: "Vector \<Rightarrow> Vector" where
  "Vector_normalised v = Vector_div v (Vector_norm v)"

definition Vector_dot :: "Vector \<Rightarrow> Vector \<Rightarrow> float" where
  "Vector_dot v rhs = Vector.x v * Vector.x rhs + Vector.y v * Vector.y rhs"

text \<open>The mutators take the receiver and return it updated.\<close>

definition Vector_setNaN :: "Vector \<Rightarrow> Vector" where
  "Vector_setNaN v = v\<lparr>Vector.x := NaN, Vector.y := NaN, Vector.z := NaN\<rparr>"

definition Vector_setUndefined :: "Vector \<Rightarrow> Vector" where
  "Vector_setUndefined v = v\<lparr>Vector.x := NaN, Vector.y := NaN, Vector.z := NaN\<rparr>"

text \<open>\<open>Vector::isNaN\<close>: \<open>x == NAN || y == NAN || z == NAN\<close>.\<close>

definition Vector_isNaN :: "Vector \<Rightarrow> bool" where
  "Vector_isNaN v = (feq (Vector.x v) NaN \<or> feq (Vector.y v) NaN \<or> feq (Vector.z v) NaN)"

section \<open>Matrix3x3 (matrix.h, matrix.cpp)\<close>

definition MATRIX_ROWS :: nat where
  "MATRIX_ROWS = 3"

definition MATRIX_COLS :: nat where
  "MATRIX_COLS = 3"

definition MATRIX_LEN :: nat where
  "MATRIX_LEN = MATRIX_ROWS * MATRIX_COLS"

text \<open>
  The storage \<open>float members[9]\<close> is a list; a matrix of the program has exactly
  \<open>MATRIX_LEN\<close> members. Reading or writing outside the array is undefined in C++ and
  is not modelled: the code below only uses row and column numbers 0, 1 and 2.
\<close>

record Matrix3x3 =
  members :: "float list"

definition Matrix3x3_index :: "nat \<Rightarrow> nat \<Rightarrow> nat" where
  "Matrix3x3_index r c = MATRIX_COLS * r + c"

definition Matrix3x3_coeff :: "Matrix3x3 \<Rightarrow> nat \<Rightarrow> nat \<Rightarrow> float" where
  "Matrix3x3_coeff m r c = members m ! Matrix3x3_index r c"

definition Matrix3x3_trace :: "Matrix3x3 \<Rightarrow> float" where
  "Matrix3x3_trace m = Matrix3x3_coeff m 0 0 + Matrix3x3_coeff m 1 1 + Matrix3x3_coeff m 2 2"

text \<open>
  \<open>Matrix3x3::reset\<close>: the loop \<open>for (i = 0; i < MATRIX_LEN; i++) members[i] = lst[i]\<close>,
  started at \<open>i\<close>.
\<close>

function reset_loop :: "nat \<Rightarrow> float list \<Rightarrow> float list \<Rightarrow> float list" where
  "reset_loop i ms lst =
     (if i < MATRIX_LEN then reset_loop (Suc i) (ms[i := lst ! i]) lst else ms)"
  by pat_completeness auto
termination
  by (relation "measure (\<lambda>(i, ms, lst). MATRIX_LEN - i)") auto

declare reset_loop.simps [simp del]

definition Matrix3x3_reset :: "Matrix3x3 \<Rightarrow> float list \<Rightarrow> Matrix3x3" where
  "Matrix3x3_reset m lst = m\<lparr>members := reset_loop 0 (members m) lst\<rparr>"

text \<open>
  The constructor from nine numbers: \<open>members {}\<close> zero-initialises the storage, then
  \<open>reset(tmp)\<close> copies the arguments in, row after row.
\<close>

definition Matrix3x3_new ::
  "float \<Rightarrow> float \<Rightarrow> float \<Rightarrow> float \<Rightarrow> float \<Rightarrow> float \<Rightarrow> float \<Rightarrow> float \<Rightarrow> float \<Rightarrow> Matrix3x3" where
  "Matrix3x3_new b11 b12 b13 b21 b22 b23 b31 b32 b33 =
     Matrix3x3_reset \<lparr>members = replicate MATRIX_LEN (Fin 0)\<rparr>
       [b11, b12, b13, b21, b22, b23, b31, b32, b33]"

definition Matrix3x3_identity :: Matrix3x3 where
  "Matrix3x3_identity =
     Matrix3x3_new (Fin 1) (Fin 0) (Fin 0) (Fin 0) (Fin 1) (Fin 0) (Fin 0) (Fin 0) (Fin 1)"

definition Matrix3x3_col :: "Matrix3x3 \<Rightarrow> nat \<Rightarrow> Vector" where
  "Matrix3x3_col m idx =
     \<lparr>Vector.x = members m ! Matrix3x3_index 0 idx,
      y = members m ! Matrix3x3_index 1 idx,
      z = members m ! Matrix3x3_index 2 idx\<rparr>"

definition Matrix3x3_row :: "Matrix3x3 \<Rightarrow> nat \<Rightarrow> Vector" where
  "Matrix3x3_row m idx =
     \<lparr>Vector.x = members m ! Matrix3x3_index idx 0,
      y = members m ! Matrix3x3_index idx 1,
      z = members m ! Matrix3x3_index idx 2\<rparr>"

text \<open>\<open>Matrix3x3::fromVectors\<close> overwrites the receiver \<open>m\<close>.\<close>

definition Matrix3x3_fromVectors ::
  "Matrix3x3 \<Rightarrow> Vector \<Rightarrow> Vector \<Rightarrow> Vector \<Rightarrow> bool \<Rightarrow> Matrix3x3" where
  "Matrix3x3_fromVectors m vx vy vz row =
     (if row then
        Matrix3x3_reset m
          [Vector.x vx, Vector.y vx, Vector.z vx,
           Vector.x vy, Vector.y vy, Vector.z vy,
           Vector.x vz, Vector.y vz, Vector.z vz]
      else
        Matrix3x3_reset m
          [Vector.x vx, Vector.x vy, Vector.x vz,
           Vector.y vx, Vector.y vy, Vector.y vz,
           Vector.z vx, Vector.z vy, Vector.z vz])"

section \<open>Quaternion (quaternion.h, quaternion.cpp)\<close>

record Quaternion =
  w :: float
  x :: float
  y :: float
  z :: float

text \<open>The constructor's default arguments: \<open>Quaternion()\<close> is \<open>(1, 0, 0, 0)\<close>.\<close>

definition Quaternion_new :: Quaternion where
  "Quaternion_new = \<lparr>w = Fin 1, x = Fin 0, y = Fin 0, z = Fin 0\<rparr>"

definition Quaternion_normSqr :: "Quaternion \<Rightarrow> float" where
  "Quaternion_normSqr q = sqr (w q) + sqr (x q) + sqr (y q) + sqr (z q)"

definition Quaternion_norm :: "Quaternion \<Rightarrow> float" where
  "Quaternion_norm q = sqrtf (Quaternion_normSqr q)"

text \<open>\<open>Quaternion::operator/(float n)\<close>.\<close>

definition Quaternion_div :: "Quaternion \<Rightarrow> float \<Rightarrow> Quaternion" where
  "Quaternion_div q n = \<lparr>w = w q / n, x = x q / n, y = y q / n, z = z q / n\<rparr>"

definition Quaternion_normalised :: "Quaternion \<Rightarrow> Quaternion" where
  "Quaternion_normalised q = Quaternion_div q (Quaternion_norm q)"

definition Quaternion_conjugate :: "Quaternion \<Rightarrow> Quaternion" where
  "Quaternion_conjugate q = \<lparr>w = w q, x = - x q, y = - y q, z = - z q\<rparr>"

text \<open>\<open>Quaternion::operator-()\<close>.\<close>

definition Quaternion_neg :: "Quaternion \<Rightarrow> Quaternion" where
  "Quaternion_neg q = \<lparr>w = - w q, x = - x q, y = - y q, z = - z q\<rparr>"

text \<open>\<open>Quaternion::operator*(const Quaternion& rhs)\<close>, the receiver first.\<close>

definition Quaternion_mul :: "Quaternion \<Rightarrow> Quaternion \<Rightarrow> Quaternion" where
  "Quaternion_mul q rhs =
     \<lparr>w = w rhs * w q - x rhs * x q - y rhs * y q - z rhs * z q,
      x = w rhs * x q + x rhs * w q - y rhs * z q + z rhs * y q,
      y = w rhs * y q + x rhs * z q + y rhs * w q - z rhs * x q,
      z = w rhs * z q - x rhs * y q + y rhs * x q + z rhs * w q\<rparr>"

definition Quaternion_toRotationMatrix :: "Quaternion \<Rightarrow> Matrix3x3" where
  "Quaternion_toRotationMatrix q =
     (let twx = x q * w q;
          twy = y q * w q;
          twz = z q * w q;
          txx = sqr (x q);
          txy = y q * x q;
          txz = z q * x q;
          tyy = sqr (y q);
          tyz = z q * y q;
          tzz = sqr (z q);
          a00 = Fin 1 - (tyy + tzz);
          a01 = txy - twz;
          a02 = txz + twy;
          a10 = txy + twz;
          a11 = Fin 1 - (txx + tzz);
          a12 = tyz - twx;
          a20 = txz - twy;
          a21 = tyz + twx;
          a22 = Fin 1 - (txx + tyy)
      in Matrix3x3_new a00 a01 a02 a10 a11 a12 a20 a21 a22)"

text \<open>\<open>Quaternion::set(size_t idx, float value)\<close>: 0 is w, 1 is x, 2 is y, 3 is z.\<close>

definition Quaternion_set :: "Quaternion \<Rightarrow> nat \<Rightarrow> float \<Rightarrow> Quaternion" where
  "Quaternion_set q idx v =
     (if idx = 0 then q\<lparr>w := v\<rparr>
      else if idx = 1 then q\<lparr>x := v\<rparr>
      else if idx = 2 then q\<lparr>y := v\<rparr>
      else if idx = 3 then q\<lparr>z := v\<rparr>
      else q)"

text \<open>\<open>Quaternion::fromMatrix\<close> assigns to fields of the receiver \<open>q0\<close>.\<close>

definition Quaternion_fromMatrix :: "Quaternion \<Rightarrow> Matrix3x3 \<Rightarrow> Quaternion" where
  "Quaternion_fromMatrix q0 mat =
     (let t = Matrix3x3_trace mat in
      if fgt t (Fin 0) then
        (let t = sqrtf (t + Fin 1);
             q = q0\<lparr>w := Fin (1/2) * t\<rparr>;
             t = Fin (1/2) / t;
             q = q\<lparr>x := (Matrix3x3_coeff mat 2 1 - Matrix3x3_coeff mat 1 2) * t\<rparr>;
             q = q\<lparr>y := (Matrix3x3_coeff mat 0 2 - Matrix3x3_coeff mat 2 0) * t\<rparr>;
             q = q\<lparr>z := (Matrix3x3_coeff mat 1 0 - Matrix3x3_coeff mat 0 1) * t\<rparr>
         in q)
      else
        (let i = (if fgt (Matrix3x3_coeff mat 1 1) (Matrix3x3_coeff mat 0 0) then 1 else 0);
             i = (if fgt (Matrix3x3_coeff mat 2 2) (Matrix3x3_coeff mat i i) then 2 else i);
             j = (i + 1) mod 3;
             k = (j + 1) mod 3;
             t = sqrtf (Matrix3x3_coeff mat i i - Matrix3x3_coeff mat j j
                        - Matrix3x3_coeff mat k k + Fin 1);
             q = Quaternion_set q0 i (Fin (1/2) * t);
             t = Fin (1/2) / t;
             q = q\<lparr>w := (Matrix3x3_coeff mat k j - Matrix3x3_coeff mat j k) * t\<rparr>;
             q = Quaternion_set q j ((Matrix3x3_coeff mat j i + Matrix3x3_coeff mat i j) * t);
             q = Quaternion_set q k ((Matrix3x3_coeff mat k i + Matrix3x3_coeff mat i k) * t)
         in q))"

text \<open>\<open>Matrix3x3::toQuaternion\<close>.\<close>

definition Matrix3x3_toQuaternion :: "Matrix3x3 \<Rightarrow> Quaternion" where
  "Matrix3x3_toQuaternion m =
     (let w' = Fin (1/2) * sqrtf (Fin 1 + Matrix3x3_trace m);
          w4 = w' * Fin 4;
          x' = (Matrix3x3_coeff m 1 2 - Matrix3x3_coeff m 2 1) / w4;
          y' = (Matrix3x3_coeff m 2 0 - Matrix3x3_coeff m 0 2) / w4;
          z' = (Matrix3x3_coeff m 0 1 - Matrix3x3_coeff m 1 0) / w4
      in Quaternion_normalised \<lparr>w = w', x = x', y = y', z = z'\<rparr>)"

section \<open>Finite quaternions\<close>

text \<open>
  The algebraic laws of the Hamilton product are laws of exact arithmetic: they are
  stated for quaternions whose four components are finite numbers.
\<close>

definition Quaternion_finite :: "Quaternion \<Rightarrow> bool" where
  "Quaternion_finite q = (isfinite (w q) \<and> isfinite (x q) \<and> isfinite (y q) \<and> isfinite (z q))"

section \<open>Properties of the single-precision operations\<close>

lemma feq_NaN_right: "feq a NaN = False"
  by (cases a) simp_all

lemma div_zero_not_finite: "feq n (Fin 0) \<Longrightarrow> isfinite (a / n) = False"
  by (cases a; cases n) simp_all

lemma isfinite_iff: "isfinite a = (\<exists>r. a = Fin r)"
  by (cases a) simp_all

lemma plus_Fin_cases: "a + b = Fin c \<Longrightarrow> \<exists>a' b'. a = Fin a' \<and> b = Fin b'"
  by (cases a; cases b) simp_all

lemma sqr_Fin_cases: "sqr a = Fin c \<Longrightarrow> \<exists>a'. a = Fin a'"
  by (cases a) (simp_all add: sqr_def)

lemma sqrt_64_25: "sqrt (64 / 25) = 8 / 5"
  by (rule real_sqrt_unique) (simp_all add: power2_eq_square)

section \<open>Properties of Vector\<close>

text \<open>
  C3: \<open>a.dot(b)\<close> is \<open>a.x*b.x + a.y*b.y\<close>, so the z components play no part in it,
  while \<open>a.norm()\<close> is the square root of the sum of the squares of all three
  components.
\<close>

theorem C3_dot_drops_z_norm_uses_all:
  "Vector_dot a b = Vector.x a * Vector.x b + Vector.y a * Vector.y b
   \<and> Vector_dot (a\<lparr>Vector.z := c\<rparr>) (b\<lparr>Vector.z := d\<rparr>) = Vector_dot a b
   \<and> Vector_norm a
       = sqrtf (Vector.x a * Vector.x a + Vector.y a * Vector.y a + Vector.z a * Vector.z a)"
  by (simp add: Vector_dot_def Vector_norm_def Vector_normSqr_def sqr_def)

text \<open>
  C8: when \<open>v.norm() == 0\<close> holds, every component of \<open>v.normalised()\<close> is an infinity
  or NaN. The function has no branch for a zero norm: it returns the quotients.
\<close>

theorem C8_normalised_zero_norm_not_finite:
  assumes "feq (Vector_norm v) (Fin 0)"
  shows "isfinite (Vector.x (Vector_normalised v)) = False
       \<and> isfinite (Vector.y (Vector_normalised v)) = False
       \<and> isfinite (Vector.z (Vector_normalised v)) = False"
  using assms by (simp add: Vector_normalised_def Vector_div_def div_zero_not_finite)

theorem C8_zero_vector_witness:
  "feq (Vector_norm \<lparr>Vector.x = Fin 0, y = Fin 0, z = Fin 0\<rparr>) (Fin 0)
   \<and> Vector_normalised \<lparr>Vector.x = Fin 0, y = Fin 0, z = Fin 0\<rparr>
       = \<lparr>Vector.x = NaN, y = NaN, z = NaN\<rparr>
   \<and> isfinite (Vector.x (Vector_normalised \<lparr>Vector.x = Fin 0, y = Fin 0, z = Fin 0\<rparr>)) = False
   \<and> isfinite (Vector.y (Vector_normalised \<lparr>Vector.x = Fin 0, y = Fin 0, z = Fin 0\<rparr>)) = False
   \<and> isfinite (Vector.z (Vector_normalised \<lparr>Vector.x = Fin 0, y = Fin 0, z = Fin 0\<rparr>)) = False"
proof -
  have h: "feq (Vector_norm \<lparr>Vector.x = Fin 0, y = Fin 0, z = Fin 0\<rparr>) (Fin 0)"
    by (simp add: Vector_norm_def Vector_normSqr_def sqr_def)
  have e: "Vector_normalised \<lparr>Vector.x = Fin 0, y = Fin 0, z = Fin 0\<rparr>
       = \<lparr>Vector.x = NaN, y = NaN, z = NaN\<rparr>"
    by (simp add: Vector_normalised_def Vector_div_def Vector_norm_def Vector_normSqr_def sqr_def)
  from h e C8_normalised_zero_norm_not_finite [OF h] show ?thesis
    by (intro conjI) (rule h, rule e, simp_all)
qed

text \<open>
  C10: \<open>v.isNaN()\<close> is false for every vector, also right after \<open>setNaN()\<close> or
  \<open>setUndefined()\<close> made every component NaN: the comparison \<open>== NAN\<close> is false for
  every operand.
\<close>

theorem C10_isNaN_always_false:
  "Vector_isNaN v = False
   \<and> Vector_setUndefined v = \<lparr>Vector.x = NaN, y = NaN, z = NaN\<rparr>
   \<and> Vector_isNaN (Vector_setUndefined v) = False
   \<and> Vector_isNaN (Vector_setNaN v) = False"
  by (simp add: Vector_isNaN_def Vector_setUndefined_def feq_NaN_right)

section \<open>Properties of Matrix3x3\<close>

lemmas MATRIX_consts = MATRIX_LEN_def MATRIX_ROWS_def MATRIX_COLS_def

text \<open>The loop of \<open>reset\<close> copies all nine elements.\<close>

lemma reset_loop_from:
  "i \<le> 9 \<Longrightarrow> length ms = 9 \<Longrightarrow> length lst = 9 \<Longrightarrow> take i ms = take i lst
   \<Longrightarrow> reset_loop i ms lst = lst"
proof (induction i ms lst rule: reset_loop.induct)
  case (1 i ms lst)
  show ?case
  proof (cases "i < MATRIX_LEN")
    case True
    then have i9: "i < 9" by (simp add: MATRIX_consts)
    have "take (Suc i) (ms[i := lst ! i]) = take (Suc i) lst"
      using i9 1(3,4,5) by (simp add: take_Suc_conv_app_nth)
    with 1 True i9 show ?thesis by (subst reset_loop.simps) simp
  next
    case False
    then have "i = 9" using 1(2) by (simp add: MATRIX_consts)
    with 1 False show ?thesis by (subst reset_loop.simps) simp
  qed
qed

lemma reset_loop_full: "length ms = 9 \<Longrightarrow> length lst = 9 \<Longrightarrow> reset_loop 0 ms lst = lst"
  by (rule reset_loop_from) simp_all

lemma Matrix3x3_new_members:
  "members (Matrix3x3_new b11 b12 b13 b21 b22 b23 b31 b32 b33)
     = [b11, b12, b13, b21, b22, b23, b31, b32, b33]"
  by (simp add: Matrix3x3_new_def Matrix3x3_reset_def reset_loop_full MATRIX_consts)

lemma coeff_new:
  "Matrix3x3_coeff (Matrix3x3_new b11 b12 b13 b21 b22 b23 b31 b32 b33) r c =
     [b11, b12, b13, b21, b22, b23, b31, b32, b33] ! (3 * r + c)"
  by (simp add: Matrix3x3_coeff_def Matrix3x3_index_def MATRIX_COLS_def Matrix3x3_new_members)

lemma trace_new:
  "Matrix3x3_trace (Matrix3x3_new b11 b12 b13 b21 b22 b23 b31 b32 b33) = b11 + b22 + b33"
  by (simp add: Matrix3x3_trace_def coeff_new)

lemma nine_members:
  "length xs = 9 \<Longrightarrow> xs = [xs ! 0, xs ! 1, xs ! 2, xs ! 3, xs ! 4, xs ! 5, xs ! 6, xs ! 7, xs ! 8]"
  by (auto simp: list_eq_iff_nth_eq less_Suc_eq numeral_eq_Suc nth_Cons')

lemma members_eqI: "members (m1 :: Matrix3x3) = members m2 \<Longrightarrow> m1 = m2"
  by simp

lemmas fromVectors_defs = Matrix3x3_fromVectors_def Matrix3x3_row_def Matrix3x3_col_def
  Matrix3x3_index_def MATRIX_COLS_def Matrix3x3_reset_def eval_nat_numeral

text \<open>
  C9: for every matrix \<open>m\<close> (nine members), \<open>fromVectors(m.row(0), m.row(1), m.row(2), true)\<close>
  leaves the receiver equal to \<open>m\<close>; with \<open>false\<close> the three vectors become the columns:
  \<open>col(i)\<close> of the result is the \<open>i\<close>-th argument, and the columns of \<open>m\<close> rebuild \<open>m\<close>.
\<close>

theorem C9_fromVectors_roundtrip:
  assumes "length (members m) = MATRIX_LEN" and "length (members m0) = MATRIX_LEN"
  shows "Matrix3x3_fromVectors m0 (Matrix3x3_row m 0) (Matrix3x3_row m 1) (Matrix3x3_row m 2) True = m
    \<and> Matrix3x3_fromVectors m0 (Matrix3x3_col m 0) (Matrix3x3_col m 1) (Matrix3x3_col m 2) False = m
    \<and> Matrix3x3_col (Matrix3x3_fromVectors m0 vx vy vz False) 0 = vx
    \<and> Matrix3x3_col (Matrix3x3_fromVectors m0 vx vy vz False) 1 = vy
    \<and> Matrix3x3_col (Matrix3x3_fromVectors m0 vx vy vz False) 2 = vz"
proof -
  have l: "length (members m) = 9" "length (members m0) = 9"
    using assms by (simp_all add: MATRIX_consts)
  let ?ms = "[members m ! 0, members m ! 1, members m ! 2, members m ! 3, members m ! 4,
              members m ! 5, members m ! 6, members m ! 7, members m ! 8]"
  have e: "?ms = members m"
    by (rule nine_members [OF l(1), symmetric])
  have "members (Matrix3x3_fromVectors m0 (Matrix3x3_row m 0) (Matrix3x3_row m 1)
          (Matrix3x3_row m 2) True) = ?ms"
    by (simp add: fromVectors_defs reset_loop_full l)
  then have r: "Matrix3x3_fromVectors m0 (Matrix3x3_row m 0) (Matrix3x3_row m 1)
                  (Matrix3x3_row m 2) True = m"
    using e by (intro members_eqI) (rule trans)
  have "members (Matrix3x3_fromVectors m0 (Matrix3x3_col m 0) (Matrix3x3_col m 1)
          (Matrix3x3_col m 2) False) = ?ms"
    by (simp add: fromVectors_defs reset_loop_full l)
  then have c: "Matrix3x3_fromVectors m0 (Matrix3x3_col m 0) (Matrix3x3_col m 1)
                  (Matrix3x3_col m 2) False = m"
    using e by (intro members_eqI) (rule trans)
  have s: "Matrix3x3_col (Matrix3x3_fromVectors m0 vx vy vz False) 0 = vx"
     "Matrix3x3_col (Matrix3x3_fromVectors m0 vx vy vz False) 1 = vy"
     "Matrix3x3_col (Matrix3x3_fromVectors m0 vx vy vz False) 2 = vz"
    by (simp_all add: fromVectors_defs reset_loop_full l)
  from r c s show ?thesis by (intro conjI)
qed

theorem C9_fromVectors_roundtrip_witness:
  "length (members \<lparr>members = [Fin 1, Fin 2, Fin 3, Fin 4, Fin 5, Fin 6, Fin 7, Fin 8, Fin 9]\<rparr>)
     = MATRIX_LEN
   \<and> length (members Matrix3x3_identity) = MATRIX_LEN
   \<and> Matrix3x3_fromVectors Matrix3x3_identity
        \<lparr>Vector.x = Fin 1, y = Fin 2, z = Fin 3\<rparr>
        \<lparr>Vector.x = Fin 4, y = Fin 5, z = Fin 6\<rparr>
        \<lparr>Vector.x = Fin 7, y = Fin 8, z = Fin 9\<rparr> True
      = \<lparr>members = [Fin 1, Fin 2, Fin 3, Fin 4, Fin 5, Fin 6, Fin 7, Fin 8, Fin 9]\<rparr>
   \<and> Matrix3x3_fromVectors Matrix3x3_identity
        \<lparr>Vector.x = Fin 1, y = Fin 4, z = Fin 7\<rparr>
        \<lparr>Vector.x = Fin 2, y = Fin 5, z = Fin 8\<rparr>
        \<lparr>Vector.x = Fin 3, y = Fin 6, z = Fin 9\<rparr> False
      = \<lparr>members = [Fin 1, Fin 2, Fin 3, Fin 4, Fin 5, Fin 6, Fin 7, Fin 8, Fin 9]\<rparr>
   \<and> Matrix3x3_col (Matrix3x3_fromVectors Matrix3x3_identity
        \<lparr>Vector.x = Fin 1, y = Fin 4, z = Fin 7\<rparr>
        \<lparr>Vector.x = Fin 2, y = Fin 5, z = Fin 8\<rparr>
        \<lparr>Vector.x = Fin 3, y = Fin 6, z = Fin 9\<rparr> False) 1
      = \<lparr>Vector.x = Fin 2, y = Fin 5, z = Fin 8\<rparr>"
proof -
  let ?m = "\<lparr>members = [Fin 1, Fin 2, Fin 3, Fin 4, Fin 5, Fin 6, Fin 7, Fin 8, Fin 9]\<rparr>"
  have h1: "length (members ?m) = MATRIX_LEN"
    by (simp add: MATRIX_consts)
  have h2: "length (members Matrix3x3_identity) = MATRIX_LEN"
    by (simp add: Matrix3x3_identity_def Matrix3x3_new_members MATRIX_consts)
  have rows: "Matrix3x3_row ?m 0 = \<lparr>Vector.x = Fin 1, y = Fin 2, z = Fin 3\<rparr>"
    "Matrix3x3_row ?m 1 = \<lparr>Vector.x = Fin 4, y = Fin 5, z = Fin 6\<rparr>"
    "Matrix3x3_row ?m 2 = \<lparr>Vector.x = Fin 7, y = Fin 8, z = Fin 9\<rparr>"
    by (simp_all add: Matrix3x3_row_def Matrix3x3_index_def MATRIX_COLS_def)
  have cols: "Matrix3x3_col ?m 0 = \<lparr>Vector.x = Fin 1, y = Fin 4, z = Fin 7\<rparr>"
    "Matrix3x3_col ?m 1 = \<lparr>Vector.x = Fin 2, y = Fin 5, z = Fin 8\<rparr>"
    "Matrix3x3_col ?m 2 = \<lparr>Vector.x = Fin 3, y = Fin 6, z = Fin 9\<rparr>"
    by (simp_all add: Matrix3x3_col_def Matrix3x3_index_def MATRIX_COLS_def)
  note t = C9_fromVectors_roundtrip [OF h1 h2,
      of "\<lparr>Vector.x = Fin 1, y = Fin 4, z = Fin 7\<rparr>" "\<lparr>Vector.x = Fin 2, y = Fin 5, z = Fin 8\<rparr>"
         "\<lparr>Vector.x = Fin 3, y = Fin 6, z = Fin 9\<rparr>", unfolded rows cols]
  from h1 h2 t show ?thesis by blast
qed

section \<open>Properties of Quaternion and of the conversions\<close>

lemma Quaternion_finiteE:
  assumes "Quaternion_finite q"
  obtains a b c d where "q = \<lparr>w = Fin a, x = Fin b, y = Fin c, z = Fin d\<rparr>"
proof -
  from assms obtain a b c d where "w q = Fin a" "x q = Fin b" "y q = Fin c" "z q = Fin d"
    by (auto simp: Quaternion_finite_def isfinite_iff)
  then have "q = \<lparr>w = Fin a, x = Fin b, y = Fin c, z = Fin d\<rparr>" by (cases q) simp
  then show thesis by (rule that)
qed

lemma unit_normSqr_finite:
  assumes "Quaternion_normSqr q = Fin 1"
  shows "Quaternion_finite q"
proof -
  from assms obtain s1 s2 where 1: "sqr (w q) + sqr (x q) + sqr (y q) = Fin s1" "sqr (z q) = Fin s2"
    unfolding Quaternion_normSqr_def by (blast dest: plus_Fin_cases)
  from 1(1) obtain s3 s4 where 2: "sqr (w q) + sqr (x q) = Fin s3" "sqr (y q) = Fin s4"
    by (blast dest: plus_Fin_cases)
  from 2(1) obtain s5 s6 where 3: "sqr (w q) = Fin s5" "sqr (x q) = Fin s6"
    by (blast dest: plus_Fin_cases)
  from 1(2) 2(2) 3 show ?thesis
    by (auto simp: Quaternion_finite_def isfinite_iff dest: sqr_Fin_cases)
qed

lemmas conversion_defs = Matrix3x3_toQuaternion_def Quaternion_fromMatrix_def
  Quaternion_toRotationMatrix_def Quaternion_set_def Quaternion_new_def trace_new coeff_new
  Quaternion_normalised_def Quaternion_norm_def Quaternion_normSqr_def Quaternion_div_def
  sqr_def minus_float_def Let_def

text \<open>
  C7: \<open>Matrix3x3::identity().toQuaternion()\<close> is the quaternion \<open>(1, 0, 0, 0)\<close>, and
  \<open>Quaternion().toRotationMatrix()\<close> is \<open>Matrix3x3::identity()\<close>, whose nine members are
  the rows \<open>1 0 0\<close>, \<open>0 1 0\<close>, \<open>0 0 1\<close>.
\<close>

theorem C7_identity_laws:
  "Matrix3x3_toQuaternion Matrix3x3_identity = \<lparr>w = Fin 1, x = Fin 0, y = Fin 0, z = Fin 0\<rparr>
   \<and> Quaternion_toRotationMatrix Quaternion_new = Matrix3x3_identity
   \<and> members Matrix3x3_identity
       = [Fin 1, Fin 0, Fin 0, Fin 0, Fin 1, Fin 0, Fin 0, Fin 0, Fin 1]"
proof (intro conjI)
  show "Matrix3x3_toQuaternion Matrix3x3_identity = \<lparr>w = Fin 1, x = Fin 0, y = Fin 0, z = Fin 0\<rparr>"
    by (simp add: Matrix3x3_identity_def conversion_defs)
  show "Quaternion_toRotationMatrix Quaternion_new = Matrix3x3_identity"
    by (simp add: Matrix3x3_identity_def conversion_defs)
  show "members Matrix3x3_identity = [Fin 1, Fin 0, Fin 0, Fin 0, Fin 1, Fin 0, Fin 0, Fin 0, Fin 1]"
    by (simp add: Matrix3x3_identity_def Matrix3x3_new_members)
qed

text \<open>
  C5: for a quaternion \<open>q\<close> of unit norm, \<open>w\<^sup>2 + x\<^sup>2 + y\<^sup>2 + z\<^sup>2 = 1\<close>, the Hamilton product
  \<open>q * q.conjugate()\<close> is the identity quaternion \<open>(1, 0, 0, 0)\<close>, in exact arithmetic.
\<close>

theorem C5_conjugate_inverse:
  assumes "Quaternion_normSqr q = Fin 1"
  shows "Quaternion_mul q (Quaternion_conjugate q) = \<lparr>w = Fin 1, x = Fin 0, y = Fin 0, z = Fin 0\<rparr>"
proof -
  from unit_normSqr_finite [OF assms] obtain a b c d
    where q: "q = \<lparr>w = Fin a, x = Fin b, y = Fin c, z = Fin d\<rparr>"
    by (rule Quaternion_finiteE)
  from assms have n: "a * a + b * b + c * c + d * d = 1"
    by (simp add: q Quaternion_normSqr_def sqr_def)
  show ?thesis
    using n by (simp add: q Quaternion_mul_def Quaternion_conjugate_def minus_float_def algebra_simps)
qed

theorem C5_conjugate_inverse_witness:
  "Quaternion_normSqr \<lparr>w = Fin (1 / 2), x = Fin (1 / 2), y = Fin (- 1 / 2), z = Fin (1 / 2)\<rparr> = Fin 1
   \<and> Quaternion_mul \<lparr>w = Fin (1 / 2), x = Fin (1 / 2), y = Fin (- 1 / 2), z = Fin (1 / 2)\<rparr>
        (Quaternion_conjugate \<lparr>w = Fin (1 / 2), x = Fin (1 / 2), y = Fin (- 1 / 2), z = Fin (1 / 2)\<rparr>)
      = \<lparr>w = Fin 1, x = Fin 0, y = Fin 0, z = Fin 0\<rparr>"
proof -
  have h: "Quaternion_normSqr \<lparr>w = Fin (1 / 2), x = Fin (1 / 2), y = Fin (- 1 / 2), z = Fin (1 / 2)\<rparr>
           = Fin 1"
    by (simp add: Quaternion_normSqr_def sqr_def)
  from h C5_conjugate_inverse [OF h] show ?thesis by (rule conjI)
qed

text \<open>
  C6: the Hamilton product \<open>operator*(const Quaternion&)\<close> is associative in exact
  arithmetic: \<open>(q1 * q2) * q3 = q1 * (q2 * q3)\<close> for all quaternions with finite
  components.
\<close>

theorem C6_mul_assoc:
  assumes "Quaternion_finite q1" and "Quaternion_finite q2" and "Quaternion_finite q3"
  shows "Quaternion_mul (Quaternion_mul q1 q2) q3 = Quaternion_mul q1 (Quaternion_mul q2 q3)"
proof -
  from assms(1) obtain a1 b1 c1 d1 where q1: "q1 = \<lparr>w = Fin a1, x = Fin b1, y = Fin c1, z = Fin d1\<rparr>"
    by (rule Quaternion_finiteE)
  from assms(2) obtain a2 b2 c2 d2 where q2: "q2 = \<lparr>w = Fin a2, x = Fin b2, y = Fin c2, z = Fin d2\<rparr>"
    by (rule Quaternion_finiteE)
  from assms(3) obtain a3 b3 c3 d3 where q3: "q3 = \<lparr>w = Fin a3, x = Fin b3, y = Fin c3, z = Fin d3\<rparr>"
    by (rule Quaternion_finiteE)
  show ?thesis
    by (simp add: q1 q2 q3 Quaternion_mul_def minus_float_def algebra_simps)
qed

theorem C6_mul_assoc_witness:
  "Quaternion_finite \<lparr>w = Fin 0, x = Fin 1, y = Fin 0, z = Fin 0\<rparr>
   \<and> Quaternion_finite \<lparr>w = Fin 0, x = Fin 0, y = Fin 1, z = Fin 0\<rparr>
   \<and> Quaternion_finite \<lparr>w = Fin (3 / 5), x = Fin 0, y = Fin 0, z = Fin (4 / 5)\<rparr>
   \<and> Quaternion_mul
        (Quaternion_mul \<lparr>w = Fin 0, x = Fin 1, y = Fin 0, z = Fin 0\<rparr>
                        \<lparr>w = Fin 0, x = Fin 0, y = Fin 1, z = Fin 0\<rparr>)
        \<lparr>w = Fin (3 / 5), x = Fin 0, y = Fin 0, z = Fin (4 / 5)\<rparr>
      = Quaternion_mul \<lparr>w = Fin 0, x = Fin 1, y = Fin 0, z = Fin 0\<rparr>
        (Quaternion_mul \<lparr>w = Fin 0, x = Fin 0, y = Fin 1, z = Fin 0\<rparr>
                        \<lparr>w = Fin (3 / 5), x = Fin 0, y = Fin 0, z = Fin (4 / 5)\<rparr>)
   \<and> Quaternion_mul
        (Quaternion_mul \<lparr>w = Fin 0, x = Fin 1, y = Fin 0, z = Fin 0\<rparr>
                        \<lparr>w = Fin 0, x = Fin 0, y = Fin 1, z = Fin 0\<rparr>)
        \<lparr>w = Fin (3 / 5), x = Fin 0, y = Fin 0, z = Fin (4 / 5)\<rparr>
      = \<lparr>w = Fin (- 4 / 5), x = Fin 0, y = Fin 0, z = Fin (3 / 5)\<rparr>"
proof -
  have h1: "Quaternion_finite \<lparr>w = Fin 0, x = Fin 1, y = Fin 0, z = Fin 0\<rparr>"
    and h2: "Quaternion_finite \<lparr>w = Fin 0, x = Fin 0, y = Fin 1, z = Fin 0\<rparr>"
    and h3: "Quaternion_finite \<lparr>w = Fin (3 / 5), x = Fin 0, y = Fin 0, z = Fin (4 / 5)\<rparr>"
    by (simp_all add: Quaternion_finite_def)
  have v: "Quaternion_mul
        (Quaternion_mul \<lparr>w = Fin 0, x = Fin 1, y = Fin 0, z = Fin 0\<rparr>
                        \<lparr>w = Fin 0, x = Fin 0, y = Fin 1, z = Fin 0\<rparr>)
        \<lparr>w = Fin (3 / 5), x = Fin 0, y = Fin 0, z = Fin (4 / 5)\<rparr>
      = \<lparr>w = Fin (- 4 / 5), x = Fin 0, y = Fin 0, z = Fin (3 / 5)\<rparr>"
    by (simp add: Quaternion_mul_def minus_float_def)
  from h1 h2 h3 C6_mul_assoc [OF h1 h2 h3] v show ?thesis by (intro conjI)
qed

section \<open>Where the conversions leave their contracts\<close>

text \<open>
  C1: the round trip \<open>Quaternion r; r.fromMatrix(q.toRotationMatrix())\<close> at the unit
  quaternion \<open>q = (0, 1, 0, 0)\<close> (a half turn about the x axis, \<open>w \<ge> 0\<close>).
  \<open>toRotationMatrix\<close> computes the products \<open>twx\<close> ... \<open>tzz\<close> without the factor 2 of the
  rotation formula, so the matrix is \<open>diag(1, 0, 0)\<close> and not \<open>diag(1, -1, -1)\<close>; its trace
  is positive and \<open>fromMatrix\<close> returns \<open>(sqrt 2 / 2, 0, 0, 0)\<close>, which is neither \<open>q\<close> nor
  \<open>-q = (0, -1, 0, 0)\<close> within \<open>1e-5\<close>.
\<close>

theorem C1_roundtrip_at_half_turn:
  "Quaternion_normSqr \<lparr>w = Fin 0, x = Fin 1, y = Fin 0, z = Fin 0\<rparr> = Fin 1
   \<and> Quaternion_toRotationMatrix \<lparr>w = Fin 0, x = Fin 1, y = Fin 0, z = Fin 0\<rparr>
     = Matrix3x3_new (Fin 1) (Fin 0) (Fin 0) (Fin 0) (Fin 0) (Fin 0) (Fin 0) (Fin 0) (Fin 0)
   \<and> Quaternion_fromMatrix Quaternion_new
       (Quaternion_toRotationMatrix \<lparr>w = Fin 0, x = Fin 1, y = Fin 0, z = Fin 0\<rparr>)
     = \<lparr>w = Fin (sqrt 2 / 2), x = Fin 0, y = Fin 0, z = Fin 0\<rparr>
   \<and> Quaternion_neg \<lparr>w = Fin 0, x = Fin 1, y = Fin 0, z = Fin 0\<rparr>
     = \<lparr>w = Fin 0, x = Fin (- 1), y = Fin 0, z = Fin 0\<rparr>"
  by (simp add: conversion_defs Quaternion_neg_def)

text \<open>
  C2: \<open>fromMatrix\<close> on two rotation matrices of trace \<open>-1\<close>, the receiver being \<open>Quaternion()\<close>.
  The first is the half turn about the axis \<open>(3/5, 4/5, 0)\<close>: the largest diagonal
  coefficient is \<open>coeff(1,1)\<close>, so \<open>i = 1\<close>, \<open>j = 2\<close>, \<open>k = 0\<close>; \<open>set(1, ...)\<close> stores the
  value \<open>4/5\<close> of the y component in \<open>x\<close>, \<open>set(2, ...)\<close> stores the z component in \<open>y\<close>,
  \<open>set(0, ...)\<close> overwrites \<open>w\<close> with the x component \<open>3/5\<close>, and \<open>z\<close> is not assigned. The
  result is \<open>(3/5, 4/5, 0, 0)\<close> where the rotation is \<open>(0, 3/5, 4/5, 0)\<close>. The second is
  the half turn about the x axis, \<open>diag(1, -1, -1)\<close>: \<open>i = 0\<close>, \<open>set(0, 1)\<close> stores the x
  component in \<open>w\<close>, the next statement overwrites \<open>w\<close>, and the result is the zero
  quaternion.
\<close>

theorem C2_fromMatrix_half_turns:
  "Quaternion_fromMatrix Quaternion_new
     (Matrix3x3_new (Fin (- 7 / 25)) (Fin (24 / 25)) (Fin 0)
                    (Fin (24 / 25)) (Fin (7 / 25)) (Fin 0)
                    (Fin 0) (Fin 0) (Fin (- 1)))
     = \<lparr>w = Fin (3 / 5), x = Fin (4 / 5), y = Fin 0, z = Fin 0\<rparr>
   \<and> Quaternion_fromMatrix Quaternion_new
     (Matrix3x3_new (Fin 1) (Fin 0) (Fin 0)
                    (Fin 0) (Fin (- 1)) (Fin 0)
                    (Fin 0) (Fin 0) (Fin (- 1)))
     = \<lparr>w = Fin 0, x = Fin 0, y = Fin 0, z = Fin 0\<rparr>"
  by (simp add: conversion_defs sqrt_64_25)

text \<open>
  C4: the rotation about the z axis with cosine \<open>7/25\<close> and sine \<open>24/25\<close> has trace
  \<open>39/25 > 0\<close>. \<open>toQuaternion\<close> takes \<open>coeff(0,1) - coeff(1,0)\<close> for z and returns
  \<open>(4/5, 0, 0, -3/5)\<close>; \<open>fromMatrix\<close> takes \<open>coeff(1,0) - coeff(0,1)\<close> and returns
  \<open>(4/5, 0, 0, 3/5)\<close>.
\<close>

theorem C4_conversions_differ_in_sign:
  "Matrix3x3_toQuaternion
     (Matrix3x3_new (Fin (7 / 25)) (Fin (- 24 / 25)) (Fin 0)
                    (Fin (24 / 25)) (Fin (7 / 25)) (Fin 0)
                    (Fin 0) (Fin 0) (Fin 1))
     = \<lparr>w = Fin (4 / 5), x = Fin 0, y = Fin 0, z = Fin (- 3 / 5)\<rparr>
  \<and> Quaternion_fromMatrix Quaternion_new
     (Matrix3x3_new (Fin (7 / 25)) (Fin (- 24 / 25)) (Fin 0)
                    (Fin (24 / 25)) (Fin (7 / 25)) (Fin 0)
                    (Fin 0) (Fin 0) (Fin 1))
     = \<lparr>w = Fin (4 / 5), x = Fin 0, y = Fin 0, z = Fin (3 / 5)\<rparr>"
  by (simp add: conversion_defs sqrt_64_25)

text \<open>
  On every matrix of finite coefficients and positive trace the two conversions differ by
  a conjugation: \<open>toQuaternion\<close> is the normalised conjugate of what \<open>fromMatrix\<close>
  returns.
\<close>

lemma toQuaternion_fromMatrix_conjugate:
  assumes "fgt (Fin a00 + Fin a11 + Fin a22) (Fin 0)"
  shows "Matrix3x3_toQuaternion
           (Matrix3x3_new (Fin a00) (Fin a01) (Fin a02) (Fin a10) (Fin a11) (Fin a12)
              (Fin a20) (Fin a21) (Fin a22))
         = Quaternion_normalised (Quaternion_conjugate (Quaternion_fromMatrix q0
           (Matrix3x3_new (Fin a00) (Fin a01) (Fin a02) (Fin a10) (Fin a11) (Fin a12)
              (Fin a20) (Fin a21) (Fin a22))))"
proof -
  let ?M = "Matrix3x3_new (Fin a00) (Fin a01) (Fin a02) (Fin a10) (Fin a11) (Fin a12)
              (Fin a20) (Fin a21) (Fin a22)"
  define s where "s = sqrt (a00 + a11 + a22 + 1)"
  from assms have t: "0 < a00 + a11 + a22" by simp
  then have s: "0 < s" by (simp add: s_def)
  have r: "sqrtf (Fin 1 + Matrix3x3_trace ?M) = Fin s" "sqrtf (Matrix3x3_trace ?M + Fin 1) = Fin s"
    using t by (simp_all add: trace_new s_def add.commute)
  have g: "fgt (Matrix3x3_trace ?M) (Fin 0)"
    using t by (simp add: trace_new)
  have c: "Quaternion_conjugate (Quaternion_fromMatrix q0 ?M)
      = \<lparr>w = Fin (s / 2), x = Fin ((a12 - a21) / (2 * s)), y = Fin ((a20 - a02) / (2 * s)),
         z = Fin ((a01 - a10) / (2 * s))\<rparr>"
    using s by (simp add: Quaternion_fromMatrix_def Quaternion_conjugate_def g r coeff_new
        minus_float_def Let_def field_simps)
  have "Matrix3x3_toQuaternion ?M
      = Quaternion_normalised \<lparr>w = Fin (s / 2), x = Fin ((a12 - a21) / (2 * s)),
          y = Fin ((a20 - a02) / (2 * s)), z = Fin ((a01 - a10) / (2 * s))\<rparr>"
    using s by (simp add: Matrix3x3_toQuaternion_def r coeff_new minus_float_def Let_def)
  with c show ?thesis by simp
qed

end
